theory Spec2Isabelle
  imports Complex_Main "HOL-Library.Log_Nat"
begin

section \<open>Primitives of the host language\<close>

text \<open>
  The TypeScript sources are embedded shallowly.  A \<open>number\<close> of the host is an IEEE 754
  double: the quantities of the code (\<open>balance.amount\<close>, \<open>balance.decimals\<close>,
  \<open>price.value\<close>, \<open>Money.amount\<close>) have the type \<open>number\<close> defined below, whose arithmetic
  rounds as the host's does.  Counters and sizes are naturals and points in time are
  integers, the milliseconds of \<open>Date.getTime()\<close>; both stay in the range where doubles
  are exact.  An optional field is an \<open>option\<close>.  Strings are ASCII character lists, so
  \<open>toLowerCase\<close> and \<open>toUpperCase\<close> act on the Latin letters.  A thrown exception is the
  left summand of a result.
\<close>

datatype error = Error string | RangeError

definition toLowerCase_char :: "char \<Rightarrow> char" where
  "toLowerCase_char c =
     (let n = (of_char c :: nat) in if 65 \<le> n \<and> n \<le> 90 then char_of (n + 32) else c)"

definition toUpperCase_char :: "char \<Rightarrow> char" where
  "toUpperCase_char c =
     (let n = (of_char c :: nat) in if 97 \<le> n \<and> n \<le> 122 then char_of (n - 32) else c)"

definition toLowerCase :: "string \<Rightarrow> string" where
  "toLowerCase s = map toLowerCase_char s"

definition toUpperCase :: "string \<Rightarrow> string" where
  "toUpperCase s = map toUpperCase_char s"

text \<open>Truthiness of an optional string: \<open>undefined\<close> and the empty string are falsy.\<close>

definition truthy :: "string option \<Rightarrow> bool" where
  "truthy s = (case s of None \<Rightarrow> False | Some v \<Rightarrow> v \<noteq> [])"

text \<open>\<open>a || b\<close> on optional strings, and \<open>a || 'literal'\<close>.\<close>

definition or_else :: "string option \<Rightarrow> string option \<Rightarrow> string option" where
  "or_else a b = (if truthy a then a else b)"

definition or_default :: "string option \<Rightarrow> string \<Rightarrow> string" where
  "or_default a d = (case a of None \<Rightarrow> d | Some v \<Rightarrow> if v = [] then d else v)"

subsection \<open>Numbers\<close>

text \<open>
  A double is a finite value, kept as the rational it denotes, one of the two
  infinities, the negative zero, or \<open>NaN\<close>; \<open>Finite 0\<close> is the positive zero.
\<close>

datatype number = Finite rat | NegZero | PosInf | NegInf | NaN

text \<open>
  \<open>floorlog2 y\<close> is the binary exponent of a positive \<open>y\<close>: the \<open>e\<close> with
  \<open>2^e \<le> y < 2^(e+1)\<close>.  \<open>roundTiesToEven\<close> rounds to the nearest integer, a tie to the
  even one.
\<close>

definition floorlog2 :: "rat \<Rightarrow> int" where
  "floorlog2 y = (if 1 \<le> y then bitlen \<lfloor>y\<rfloor> - 1 else - bitlen (\<lceil>1 / y\<rceil> - 1))"

definition roundTiesToEven :: "rat \<Rightarrow> int" where
  "roundTiesToEven q =
     (let n = \<lfloor>q\<rfloor>; r = q - of_int n
      in if r < 1 / 2 then n else if 1 / 2 < r then n + 1 else if even n then n else n + 1)"

text \<open>
  Rounding an exact value to binary64, round-to-nearest with ties to even: 53
  significant bits, the exponent of the last bit between \<open>-1074\<close> (where the subnormal
  numbers lie) and \<open>971\<close>; a result of magnitude \<open>2^1024\<close> overflows to an infinity, and
  a non-zero value that rounds to nothing becomes the zero of its sign.
\<close>

definition round64 :: "rat \<Rightarrow> number" where
  "round64 y =
     (if y = 0 then Finite 0
      else
        let a = \<bar>y\<bar>;
            e = max (floorlog2 a - 52) (- 1074);
            m = roundTiesToEven (a / 2 powi e)
        in if 971 < e \<or> (e = 971 \<and> m = 2 ^ 53) then (if y < 0 then NegInf else PosInf)
           else if m = 0 then (if y < 0 then NegZero else Finite 0)
           else Finite (sgn y * of_int m * 2 powi e))"

definition signbit :: "number \<Rightarrow> bool" where
  "signbit x = (case x of Finite r \<Rightarrow> r < 0 | NegZero \<Rightarrow> True | NegInf \<Rightarrow> True | _ \<Rightarrow> False)"

definition is_infinite :: "number \<Rightarrow> bool" where
  "is_infinite x = (x = PosInf \<or> x = NegInf)"

text \<open>The rational a finite double denotes; both zeros denote 0.\<close>

definition magnitude :: "number \<Rightarrow> rat" where
  "magnitude x = (case x of Finite r \<Rightarrow> r | _ \<Rightarrow> 0)"

definition signed_zero :: "bool \<Rightarrow> number" where
  "signed_zero neg = (if neg then NegZero else Finite 0)"

definition signed_infinity :: "bool \<Rightarrow> number" where
  "signed_infinity neg = (if neg then NegInf else PosInf)"

text \<open>The operators \<open>+\<close>, \<open>*\<close>, \<open>/\<close> and \<open><\<close> of the host on numbers.\<close>

definition Number_add :: "number \<Rightarrow> number \<Rightarrow> number" where
  "Number_add x y =
     (if x = NaN \<or> y = NaN then NaN
      else if is_infinite x \<and> is_infinite y then (if x = y then x else NaN)
      else if is_infinite x then x
      else if is_infinite y then y
      else if x = NegZero then y
      else if y = NegZero then x
      else round64 (magnitude x + magnitude y))"

definition Number_multiply :: "number \<Rightarrow> number \<Rightarrow> number" where
  "Number_multiply x y =
     (if x = NaN \<or> y = NaN then NaN
      else
        let neg = (signbit x \<noteq> signbit y) in
        if is_infinite x \<or> is_infinite y
        then (if (magnitude x = 0 \<and> \<not> is_infinite x) \<or> (magnitude y = 0 \<and> \<not> is_infinite y) then NaN
              else signed_infinity neg)
        else if magnitude x * magnitude y = 0 then signed_zero neg
        else round64 (magnitude x * magnitude y))"


fun Number_less :: "number \<Rightarrow> number \<Rightarrow> bool" where
  "Number_less NaN _ = False"
| "Number_less _ NaN = False"
| "Number_less PosInf _ = False"
| "Number_less _ NegInf = False"
| "Number_less NegInf _ = True"
| "Number_less _ PosInf = True"
| "Number_less x y = (magnitude x < magnitude y)"



subsection \<open>Printing numbers\<close>

text \<open>Decimal digits of a non-negative integer, as \<open>String(n)\<close> prints them.\<close>

function digits :: "int \<Rightarrow> string" where
  "digits n =
     (if n < 10 then [''0123456789'' ! nat n]
      else digits (n div 10) @ [''0123456789'' ! nat (n mod 10)])"
  by pat_completeness auto
termination
  by (relation "measure nat") auto

declare digits.simps [simp del]

text \<open>
  \<open>Number::toString\<close> for a double \<open>x\<close> of at least \<open>10^21\<close>, which prints in exponent
  form: the fewest digits \<open>s\<close> (\<open>k\<close> of them) and the exponent \<open>n\<close> such that
  \<open>s * 10^(n-k)\<close> rounds to \<open>x\<close>; among several \<open>s\<close> the one nearest to \<open>x\<close>, the even
  one on a tie.  With \<open>d\<close> the number of digits of \<open>x\<close>, the exponent \<open>n\<close> is \<open>d\<close>, or
  \<open>d + 1\<close> when the power \<open>10^d\<close> itself rounds to \<open>x\<close>.  Seventeen digits always
  suffice for a double.
\<close>

definition digit_candidates :: "rat \<Rightarrow> nat \<Rightarrow> nat \<Rightarrow> int list" where
  "digit_candidates x n k =
     (let unit = 10 ^ (n - k); s = \<lfloor>x / unit\<rfloor> in
      filter (\<lambda>c. 10 ^ (k - 1) \<le> c \<and> c < 10 ^ k \<and> round64 (of_int c * unit) = Finite x)
        [s, s + 1])"

definition closest_digits :: "rat \<Rightarrow> nat \<Rightarrow> nat \<Rightarrow> int option" where
  "closest_digits x n k =
     (case digit_candidates x n k of
        [] \<Rightarrow> None
      | [s] \<Rightarrow> Some s
      | s # s' # _ \<Rightarrow>
          let unit = 10 ^ (n - k); d = \<bar>of_int s * unit - x\<bar>; d' = \<bar>of_int s' * unit - x\<bar>
          in Some (if d < d' then s else if d' < d then s' else if even s then s else s'))"

fun shortest_digits :: "nat \<Rightarrow> nat \<Rightarrow> rat \<Rightarrow> nat \<Rightarrow> int" where
  "shortest_digits 0 k x n = \<lfloor>x / 10 ^ (n - k)\<rfloor>"
| "shortest_digits (Suc fuel) k x n =
     (case closest_digits x n k of
        Some s \<Rightarrow> s
      | None \<Rightarrow> shortest_digits fuel (Suc k) x n)"

definition exponential :: "rat \<Rightarrow> string" where
  "exponential x =
     (let d = length (digits \<lfloor>x\<rfloor>);
          n = (if round64 (10 ^ d) = Finite x then Suc d else d);
          s = (if n = Suc d then 1 else shortest_digits 17 1 x n);
          m = digits s
      in (if length m = 1 then m else hd m # ''.'' @ tl m) @ ''e+'' @ digits (int n - 1))"

text \<open>
  The fixed notation of a non-negative \<open>x\<close> below \<open>10^21\<close> with \<open>f\<close> fraction digits:
  the nearest multiple of \<open>10^-f\<close>, the larger one on a tie, zero-padded to \<open>f + 1\<close>
  digits, with the decimal point before the last \<open>f\<close> digits.
\<close>

definition fixed :: "rat \<Rightarrow> nat \<Rightarrow> string" where
  "fixed x f =
     (let n = \<lfloor>x * 10 ^ f + 1 / 2\<rfloor>;
          m = digits n;
          m' = replicate (Suc f - length m) (CHR ''0'') @ m;
          k = length m' - f
      in if f = 0 then m' else take k m' @ ''.'' @ drop k m')"

definition truncate :: "rat \<Rightarrow> int" where
  "truncate d = (if d < 0 then - \<lfloor>- d\<rfloor> else \<lfloor>d\<rfloor>)"

text \<open>The fraction digits \<open>toFixed\<close> accepts: truncated, an integer from 0 to 100.\<close>

definition valid_fractionDigits :: "number \<Rightarrow> bool" where
  "valid_fractionDigits d =
     (\<not> is_infinite d \<and> 0 \<le> truncate (magnitude d) \<and> truncate (magnitude d) \<le> 100)"

text \<open>
  \<open>Number.prototype.toFixed\<close>.  The argument is truncated to an integer (\<open>NaN\<close> counts as
  0); an is_infinite one, or one outside 0..100, is a \<open>RangeError\<close>.  A number that is not
  finite prints as its name; a finite one prints its sign for a negative value and then
  its magnitude, in exponent form from \<open>10^21\<close> on and in fixed notation below.
\<close>

definition toFixed :: "number \<Rightarrow> number \<Rightarrow> error + string" where
  "toFixed x fractionDigits =
     (if is_infinite fractionDigits then Inl RangeError
      else
        let f = truncate (magnitude fractionDigits) in
        if f < 0 \<or> 100 < f then Inl RangeError
        else
          Inr (case x of
                 NaN \<Rightarrow> ''NaN''
               | PosInf \<Rightarrow> ''Infinity''
               | NegInf \<Rightarrow> ''-Infinity''
               | NegZero \<Rightarrow> fixed 0 (nat f)
               | Finite r \<Rightarrow>
                   (if r < 0 then ''-'' else '''') @
                   (if 10 ^ 21 \<le> \<bar>r\<bar> then exponential \<bar>r\<bar> else fixed \<bar>r\<bar> (nat f))))"


section \<open>Shared types\<close>

record Price =
  price_value :: number
  currency :: string
  timestamp :: int
  price_source :: "string option"

record Balance =
  amount :: number
  decimals :: number
  formatted :: string

text \<open>
  \<open>metadata\<close> is a free-form record in the source; the keys the code reads are
  \<open>sourceType\<close>, \<open>fetchedAt\<close> (converted by \<open>new Date(..).getTime()\<close>, kept here as that
  number), \<open>source\<close> and \<open>mergedFrom\<close>.
\<close>

record Metadata =
  sourceType :: "string option"
  fetchedAt :: "int option"
  source :: "string option"
  mergedFrom :: "string list option"


section \<open>Money (domain/value-objects/Money)\<close>

record Money =
  money_amount :: number
  money_currency :: string

definition Money_new :: "number \<Rightarrow> string \<Rightarrow> error + Money" where
  "Money_new amt cur =
     (if Number_less amt (Finite 0) then Inl (Error ''Money amount cannot be negative'')
      else if cur = [] \<or> length cur \<noteq> 3 then Inl (Error ''Currency must be a 3-letter code'')
      else Inr \<lparr>money_amount = amt, money_currency = toUpperCase cur\<rparr>)"

definition Money_add :: "Money \<Rightarrow> Money \<Rightarrow> error + Money" where
  "Money_add this other =
     (if money_currency this \<noteq> money_currency other
      then Inl (Error ''Cannot add money with different currencies'')
      else Money_new (Number_add (money_amount this) (money_amount other)) (money_currency this))"


section \<open>AssetEntity (domain/entities/Asset)\<close>

record AssetEntity =
  asset_id :: string
  symbol :: string
  name :: "string option"
  asset_type :: string
  chain :: "string option"
  balance :: Balance
  price :: "Price option"
  contractAddress :: "string option"
  imageUrl :: "string option"
  metadata :: Metadata

text \<open>The constructor stores its parameters and upper-cases the symbol.\<close>

definition AssetEntity_new :: "AssetEntity \<Rightarrow> AssetEntity" where
  "AssetEntity_new params = params\<lparr>symbol := toUpperCase (symbol params)\<rparr>"

definition getValue :: "AssetEntity \<Rightarrow> error + Money option" where
  "getValue this =
     (case price this of
        None \<Rightarrow> Inr None
      | Some p \<Rightarrow>
          (case Money_new (Number_multiply (amount (balance this)) (price_value p)) (currency p) of
             Inl e \<Rightarrow> Inl e
           | Inr m \<Rightarrow> Inr (Some m)))"

definition updatePrice :: "Price \<Rightarrow> AssetEntity \<Rightarrow> AssetEntity" where
  "updatePrice p this = this\<lparr>price := Some p\<rparr>"

definition AssetEntity_isSameAsset :: "AssetEntity \<Rightarrow> AssetEntity \<Rightarrow> bool" where
  "AssetEntity_isSameAsset this other =
     (if truthy (contractAddress this) \<and> truthy (contractAddress other)
      then contractAddress this = contractAddress other \<and> chain this = chain other
      else symbol this = symbol other \<and> asset_type this = asset_type other \<and>
           chain this = chain other)"

text \<open>\<open>{...other.metadata, ...this._metadata}\<close>: a key of \<open>this\<close> wins.\<close>

definition spread_first :: "'a option \<Rightarrow> 'a option \<Rightarrow> 'a option" where
  "spread_first mine theirs = (case mine of Some v \<Rightarrow> Some v | None \<Rightarrow> theirs)"

definition spread_metadata :: "Metadata \<Rightarrow> Metadata \<Rightarrow> Metadata" where
  "spread_metadata theirs mine =
     \<lparr>sourceType = spread_first (sourceType mine) (sourceType theirs),
      fetchedAt = spread_first (fetchedAt mine) (fetchedAt theirs),
      source = spread_first (source mine) (source theirs),
      mergedFrom = spread_first (mergedFrom mine) (mergedFrom theirs)\<rparr>"

definition latestPrice :: "AssetEntity \<Rightarrow> AssetEntity \<Rightarrow> Price option" where
  "latestPrice this other =
     (case (price this, price other) of
        (Some p, Some q) \<Rightarrow> (if timestamp p > timestamp q then Some p else Some q)
      | (Some p, None) \<Rightarrow> Some p
      | (None, q) \<Rightarrow> q)"

definition AssetEntity_merge :: "AssetEntity \<Rightarrow> AssetEntity \<Rightarrow> error + AssetEntity" where
  "AssetEntity_merge this other =
     (if \<not> AssetEntity_isSameAsset this other then Inl (Error ''Cannot merge different assets'')
      else
        case toFixed (Number_add (amount (balance this)) (amount (balance other)))
               (decimals (balance this)) of
          Inl e \<Rightarrow> Inl e
        | Inr text \<Rightarrow>
            Inr (AssetEntity_new
              \<lparr>asset_id = asset_id this,
               symbol = symbol this,
               name = or_else (name this) (name other),
               asset_type = asset_type this,
               chain = chain this,
               balance = \<lparr>amount = Number_add (amount (balance this)) (amount (balance other)),
                          decimals = decimals (balance this),
                          formatted = text\<rparr>,
               price = latestPrice this other,
               contractAddress = or_else (contractAddress this) (contractAddress other),
               imageUrl = or_else (imageUrl this) (imageUrl other),
               metadata = spread_metadata (metadata other) (metadata this)\<rparr>))"


section \<open>AssetReconciliationService (domain/services/AssetReconciliationService)\<close>

definition Reconciliation_isSameAsset :: "AssetEntity \<Rightarrow> AssetEntity \<Rightarrow> bool" where
  "Reconciliation_isSameAsset asset1 asset2 =
     (if symbol asset1 = symbol asset2 \<and> chain asset1 = chain asset2
      then
        if truthy (contractAddress asset1) \<and> truthy (contractAddress asset2)
        then map_option toLowerCase (contractAddress asset1) =
             map_option toLowerCase (contractAddress asset2)
        else if \<not> truthy (contractAddress asset1) \<and> \<not> truthy (contractAddress asset2)
        then True
        else False
      else False)"

text \<open>
  The table \<open>sourcePriority\<close> is an object literal.  A lookup finds the rank of one of
  its five own keys; for a key that names a member of \<open>Object.prototype\<close> it finds that
  inherited member, a function or an object; for any other key it finds nothing.
\<close>

datatype property = Ranked nat | Inherited

definition Object_prototype :: "string list" where
  "Object_prototype =
     [''constructor'', ''__defineGetter__'', ''__defineSetter__'', ''hasOwnProperty'',
      ''__lookupGetter__'', ''__lookupSetter__'', ''isPrototypeOf'', ''propertyIsEnumerable'',
      ''toString'', ''valueOf'', ''__proto__'', ''toLocaleString'']"

definition sourcePriority :: "string \<Rightarrow> property option" where
  "sourcePriority k =
     (if k = ''on-chain'' then Some (Ranked 1)
      else if k = ''blockchain'' then Some (Ranked 1)
      else if k = ''dex'' then Some (Ranked 2)
      else if k = ''cex'' then Some (Ranked 3)
      else if k = ''manual'' then Some (Ranked 4)
      else if k \<in> set Object_prototype then Some Inherited
      else None)"

text \<open>
  \<open>sourcePriority[sourceType || 'manual'] || 999\<close>: the ranks and the inherited members
  are truthy, so 999 stands in only where the lookup finds nothing.
\<close>

definition priority :: "AssetEntity \<Rightarrow> property" where
  "priority a =
     (case sourcePriority (or_default (sourceType (metadata a)) ''manual'') of
        Some p \<Rightarrow> p
      | None \<Rightarrow> Ranked 999)"

text \<open>
  \<open>priority1 <= priority2\<close>: two ranks compare as numbers; an inherited member converts
  to \<open>NaN\<close>, and a comparison with \<open>NaN\<close> is false.
\<close>

definition at_most :: "property \<Rightarrow> property \<Rightarrow> bool" where
  "at_most p q = (case (p, q) of (Ranked m, Ranked n) \<Rightarrow> m \<le> n | _ \<Rightarrow> False)"

definition selectPreferredSource :: "AssetEntity \<Rightarrow> AssetEntity \<Rightarrow> AssetEntity" where
  "selectPreferredSource asset1 asset2 =
     (if at_most (priority asset1) (priority asset2) then asset1 else asset2)"

text \<open>
  \<open>otherAsset = preferredAsset === asset1 ? asset2 : asset1\<close>; the preferred asset is
  \<open>asset1\<close> exactly when the comparison of the priorities holds.
\<close>

definition selectOtherAsset :: "AssetEntity \<Rightarrow> AssetEntity \<Rightarrow> AssetEntity" where
  "selectOtherAsset asset1 asset2 =
     (if at_most (priority asset1) (priority asset2) then asset2 else asset1)"

definition fetchedTime :: "AssetEntity \<Rightarrow> int" where
  "fetchedTime a = (case fetchedAt (metadata a) of Some t \<Rightarrow> t | None \<Rightarrow> 0)"

definition selectMostRecentPrice :: "AssetEntity \<Rightarrow> AssetEntity \<Rightarrow> Price option" where
  "selectMostRecentPrice asset1 asset2 =
     (if price asset1 = None \<and> price asset2 = None then None
      else if price asset1 = None then price asset2
      else if price asset2 = None then price asset1
      else if fetchedTime asset1 \<ge> fetchedTime asset2 then price asset1
      else price asset2)"

definition formatBalance :: "number \<Rightarrow> number \<Rightarrow> error + string" where
  "formatBalance amt dec = toFixed amt dec"

definition list_or_empty :: "string list option \<Rightarrow> string list" where
  "list_or_empty l = (case l of Some xs \<Rightarrow> xs | None \<Rightarrow> [])"

text \<open>
  \<open>[...preferred.mergedFrom, ...other.mergedFrom, other.source].filter(Boolean)\<close>:
  the falsy entries, an absent source and empty strings, are dropped.
\<close>

definition mergedFrom_of :: "AssetEntity \<Rightarrow> AssetEntity \<Rightarrow> string list" where
  "mergedFrom_of preferredAsset otherAsset =
     filter (\<lambda>s. s \<noteq> [])
       (list_or_empty (mergedFrom (metadata preferredAsset)) @
        list_or_empty (mergedFrom (metadata otherAsset)) @
        (case source (metadata otherAsset) of Some s \<Rightarrow> [s] | None \<Rightarrow> []))"

definition mergeAssets :: "AssetEntity \<Rightarrow> AssetEntity \<Rightarrow> error + AssetEntity" where
  "mergeAssets asset1 asset2 =
     (if \<not> Reconciliation_isSameAsset asset1 asset2
      then Inl (Error ''Cannot merge different assets'')
      else
        let preferredAsset = selectPreferredSource asset1 asset2;
            otherAsset = selectOtherAsset asset1 asset2
        in case formatBalance (Number_add (amount (balance asset1)) (amount (balance asset2)))
                  (decimals (balance preferredAsset)) of
             Inl e \<Rightarrow> Inl e
           | Inr text \<Rightarrow>
               Inr (AssetEntity_new
                 \<lparr>asset_id = asset_id preferredAsset,
                  symbol = symbol preferredAsset,
                  name = name preferredAsset,
                  asset_type = asset_type preferredAsset,
                  chain = chain preferredAsset,
                  balance = \<lparr>amount = Number_add (amount (balance asset1)) (amount (balance asset2)),
                             decimals = decimals (balance preferredAsset),
                             formatted = text\<rparr>,
                  price = selectMostRecentPrice asset1 asset2,
                  contractAddress = contractAddress preferredAsset,
                  imageUrl = imageUrl preferredAsset,
                  metadata = (metadata preferredAsset)
                    \<lparr>mergedFrom := Some (mergedFrom_of preferredAsset otherAsset)\<rparr>\<rparr>))"

definition generateAssetKey :: "AssetEntity \<Rightarrow> string" where
  "generateAssetKey asset =
     or_default (chain asset) ''unknown'' @ '':'' @ toUpperCase (symbol asset) @ '':'' @
     or_default (map_option toLowerCase (contractAddress asset)) ''native''"


section \<open>The specification's same-asset predicate\<close>




section \<open>Sample holdings\<close>

definition example_asset ::
  "string \<Rightarrow> string \<Rightarrow> string option \<Rightarrow> string option \<Rightarrow> number \<Rightarrow> number \<Rightarrow> AssetEntity" where
  "example_asset i s c ca amt dec =
     AssetEntity_new
       \<lparr>asset_id = i, symbol = s, name = None, asset_type = ''token'', chain = c,
        balance = \<lparr>amount = amt, decimals = dec, formatted = ''''\<rparr>,
        price = None, contractAddress = ca, imageUrl = None,
        metadata = \<lparr>sourceType = None, fetchedAt = None, source = None, mergedFrom = None\<rparr>\<rparr>"

definition usdc_mixed :: AssetEntity where
  "usdc_mixed = example_asset ''a1'' ''USDC'' (Some ''ethereum'')
     (Some ''0xA0b86991c6218b36c1d19D4a2e9Eb0cE3606eB48'') (Finite 10) (Finite 6)"




definition with_provenance ::
  "string \<Rightarrow> int \<Rightarrow> Price option \<Rightarrow> AssetEntity \<Rightarrow> AssetEntity" where
  "with_provenance st fetched p a =
     a\<lparr>price := p,
       metadata := \<lparr>sourceType = Some st, fetchedAt = Some fetched, source = Some st,
                    mergedFrom = None\<rparr>\<rparr>"

definition usd :: "number \<Rightarrow> int \<Rightarrow> Price" where
  "usd v t = \<lparr>price_value = v, currency = ''USD'', timestamp = t, price_source = None\<rparr>"

text \<open>Two holdings of native ETH: 1.5 seen on chain, 2.5 reported by an exchange.\<close>

definition eth_onchain :: AssetEntity where
  "eth_onchain = with_provenance ''on-chain'' 1000 (Some (usd (Finite 2000) 500))
     (example_asset ''e1'' ''ETH'' (Some ''ethereum'') None (Finite (3 / 2)) (Finite 18))"

definition eth_cex :: AssetEntity where
  "eth_cex = with_provenance ''cex'' 2000 (Some (usd (Finite 2100) 400))
     (example_asset ''e2'' ''ETH'' (Some ''ethereum'') None (Finite (5 / 2)) (Finite 8))"


text \<open>Two more holdings of native ETH, of 0.1 and 0.2 as doubles, and one without a price.\<close>

definition eth_tenth :: AssetEntity where
  "eth_tenth = example_asset ''e4'' ''ETH'' (Some ''ethereum'') None (round64 (1 / 10)) (Finite 18)"

definition eth_fifth :: AssetEntity where
  "eth_fifth = example_asset ''e5'' ''ETH'' (Some ''ethereum'') None (round64 (2 / 10)) (Finite 18)"

definition eth_unpriced :: AssetEntity where
  "eth_unpriced = example_asset ''e3'' ''ETH'' (Some ''ethereum'') None (Finite 1) (Finite 18)"


section \<open>The host's Map and Set\<close>

text \<open>
  A \<open>Map\<close> iterates in insertion order: \<open>set\<close> on a present key replaces the value in
  place, on a new key it appends.  It is a list of entries with distinct keys.  A
  \<open>Set\<close> is a list without duplicates, \<open>add\<close> appending a new element.
\<close>

fun Map_set :: "'k \<Rightarrow> 'v \<Rightarrow> ('k \<times> 'v) list \<Rightarrow> ('k \<times> 'v) list" where
  "Map_set k v [] = [(k, v)]"
| "Map_set k v (e # es) = (if fst e = k then (k, v) # es else e # Map_set k v es)"

definition Map_get :: "('k \<times> 'v) list \<Rightarrow> 'k \<Rightarrow> 'v option" where
  "Map_get m k = map_of m k"

definition Map_values :: "('k \<times> 'v) list \<Rightarrow> 'v list" where
  "Map_values m = map snd m"

definition Map_keys :: "('k \<times> 'v) list \<Rightarrow> 'k list" where
  "Map_keys m = map fst m"

definition Set_add :: "'a \<Rightarrow> 'a list \<Rightarrow> 'a list" where
  "Set_add x s = (if x \<in> set s then s else s @ [x])"


section \<open>AssetReconciliationService.reconcile\<close>

fun reconcile_loop ::
  "(string \<times> AssetEntity) list \<Rightarrow> AssetEntity list \<Rightarrow> error + (string \<times> AssetEntity) list" where
  "reconcile_loop reconciled [] = Inr reconciled"
| "reconcile_loop reconciled (asset # rest) =
     (let key = generateAssetKey asset in
      case Map_get reconciled key of
        Some existing \<Rightarrow>
          (case mergeAssets existing asset of
             Inl e \<Rightarrow> Inl e
           | Inr merged \<Rightarrow> reconcile_loop (Map_set key merged reconciled) rest)
      | None \<Rightarrow> reconcile_loop (Map_set key asset reconciled) rest)"

definition reconcile :: "AssetEntity list \<Rightarrow> error + AssetEntity list" where
  "reconcile assets =
     (case reconcile_loop [] assets of Inl e \<Rightarrow> Inl e | Inr reconciled \<Rightarrow> Inr (Map_values reconciled))"


section \<open>PortfolioAggregate (domain/aggregates/Portfolio)\<close>

datatype IntegrationSource = EVM | SOLANA | ROBINHOOD

record PortfolioAggregate =
  portfolio_id :: string
  userId :: "string option"
  assets :: "(string \<times> AssetEntity) list"
  sources :: "IntegrationSource list"
  lastUpdated :: int

text \<open>
  Every \<open>new Date()\<close> of a method is the time \<open>now\<close> passed to it.  The constructor is
  used without initial assets and sources.
\<close>

definition PortfolioAggregate_new :: "int \<Rightarrow> string \<Rightarrow> string option \<Rightarrow> PortfolioAggregate" where
  "PortfolioAggregate_new now i u =
     \<lparr>portfolio_id = i, userId = u, assets = [], sources = [], lastUpdated = now\<rparr>"

definition findSimilarAsset :: "PortfolioAggregate \<Rightarrow> AssetEntity \<Rightarrow> AssetEntity option" where
  "findSimilarAsset this asset =
     find (\<lambda>existing. AssetEntity_isSameAsset existing asset) (Map_values (assets this))"

definition addAsset :: "int \<Rightarrow> AssetEntity \<Rightarrow> PortfolioAggregate \<Rightarrow> error + PortfolioAggregate" where
  "addAsset now asset this =
     (case findSimilarAsset this asset of
        Some existingAsset \<Rightarrow>
          (case AssetEntity_merge existingAsset asset of
             Inl e \<Rightarrow> Inl e
           | Inr merged \<Rightarrow>
               Inr (this\<lparr>assets := Map_set (asset_id merged) merged (assets this),
                          lastUpdated := now\<rparr>))
      | None \<Rightarrow>
          Inr (this\<lparr>assets := Map_set (asset_id asset) asset (assets this), lastUpdated := now\<rparr>))"

definition addSource :: "int \<Rightarrow> IntegrationSource \<Rightarrow> PortfolioAggregate \<Rightarrow> PortfolioAggregate" where
  "addSource now src this = this\<lparr>sources := Set_add src (sources this), lastUpdated := now\<rparr>"

fun getTotalValue_loop :: "string \<Rightarrow> Money \<Rightarrow> AssetEntity list \<Rightarrow> error + Money" where
  "getTotalValue_loop cur tot [] = Inr tot"
| "getTotalValue_loop cur tot (asset # rest) =
     (case getValue asset of
        Inl e \<Rightarrow> Inl e
      | Inr None \<Rightarrow> getTotalValue_loop cur tot rest
      | Inr (Some v) \<Rightarrow>
          if money_currency v = cur
          then (case Money_add tot v of
                  Inl e \<Rightarrow> Inl e
                | Inr tot' \<Rightarrow> getTotalValue_loop cur tot' rest)
          else getTotalValue_loop cur tot rest)"

definition getTotalValue :: "string \<Rightarrow> PortfolioAggregate \<Rightarrow> error + Money" where
  "getTotalValue cur this =
     (case Money_new (Finite 0) cur of
        Inl e \<Rightarrow> Inl e
      | Inr tot \<Rightarrow> getTotalValue_loop cur tot (Map_values (assets this)))"

definition getAssetKey :: "AssetEntity \<Rightarrow> string" where
  "getAssetKey asset =
     (if truthy (contractAddress asset) \<and> truthy (chain asset)
      then or_default (chain asset) '''' @ '':'' @ or_default (contractAddress asset) ''''
      else or_default (chain asset) ''global'' @ '':'' @ symbol asset @ '':'' @ asset_type asset)"

fun PortfolioAggregate_reconcile_loop ::
  "(string \<times> AssetEntity) list \<Rightarrow> AssetEntity list \<Rightarrow> error + (string \<times> AssetEntity) list" where
  "PortfolioAggregate_reconcile_loop reconciledAssets [] = Inr reconciledAssets"
| "PortfolioAggregate_reconcile_loop reconciledAssets (asset # rest) =
     (let key = getAssetKey asset in
      case Map_get reconciledAssets key of
        Some existing \<Rightarrow>
          (case AssetEntity_merge existing asset of
             Inl e \<Rightarrow> Inl e
           | Inr merged \<Rightarrow>
               PortfolioAggregate_reconcile_loop (Map_set key merged reconciledAssets) rest)
      | None \<Rightarrow> PortfolioAggregate_reconcile_loop (Map_set key asset reconciledAssets) rest)"

definition PortfolioAggregate_reconcile :: "int \<Rightarrow> PortfolioAggregate \<Rightarrow> error + PortfolioAggregate" where
  "PortfolioAggregate_reconcile now this =
     (case PortfolioAggregate_reconcile_loop [] (Map_values (assets this)) of
        Inl e \<Rightarrow> Inl e
      | Inr reconciledAssets \<Rightarrow> Inr (this\<lparr>assets := reconciledAssets, lastUpdated := now\<rparr>))"

text \<open>An entity built by the constructor has an upper-case symbol.\<close>

definition constructed :: "AssetEntity \<Rightarrow> bool" where
  "constructed a = (symbol a = toUpperCase (symbol a))"

text \<open>A portfolio holding the two ETH positions and one USDC position under their ids.\<close>

definition sample_portfolio :: PortfolioAggregate where
  "sample_portfolio =
     \<lparr>portfolio_id = ''portfolio_alice'', userId = Some ''alice'',
      assets = [(''e1'', eth_onchain), (''e2'', eth_cex), (''a1'', usdc_mixed)],
      sources = [EVM], lastUpdated = 0\<rparr>"

definition holdings :: "(string \<times> AssetEntity) list \<Rightarrow> (string \<times> number) list" where
  "holdings m = map (\<lambda>(k, v). (k, amount (balance v))) m"


section \<open>Holdings priced in lower-case currency codes\<close>

definition eth_lowercase_price :: AssetEntity where
  "eth_lowercase_price =
     eth_onchain\<lparr>price := Some \<lparr>price_value = Finite 2000, currency = ''usd'', timestamp = 500,
                                price_source = None\<rparr>\<rparr>"

definition lowercase_portfolio :: PortfolioAggregate where
  "lowercase_portfolio = sample_portfolio\<lparr>assets := [(''e1'', eth_lowercase_price)]\<rparr>"


section \<open>CircuitBreaker (infrastructure/patterns/CircuitBreaker)\<close>

datatype CircuitState = CLOSED | OPEN | HALF_OPEN

record CircuitBreakerConfig =
  failureThreshold :: nat
  recoveryTimeout :: int
  halfOpenRetries :: nat

record CircuitBreaker =
  state :: CircuitState
  failures :: nat
  successes :: nat
  lastFailureTime :: "int option"
  lastSuccessTime :: "int option"
  nextRetryTime :: "int option"
  halfOpenAttempts :: nat
  config :: CircuitBreakerConfig


text \<open>
  Each method reads the clock once; \<open>now\<close> is that reading.  \<open>getState\<close> may change the
  breaker, so it returns the state together with the breaker after the call.
\<close>

definition getState :: "int \<Rightarrow> CircuitBreaker \<Rightarrow> CircuitState \<times> CircuitBreaker" where
  "getState now this =
     (let this' =
        (case (state this, nextRetryTime this) of
           (OPEN, Some retry) \<Rightarrow>
             if now \<ge> retry then this\<lparr>state := HALF_OPEN, halfOpenAttempts := 0\<rparr> else this
         | _ \<Rightarrow> this)
      in (state this', this'))"

definition recordSuccess :: "int \<Rightarrow> CircuitBreaker \<Rightarrow> CircuitBreaker" where
  "recordSuccess now this =
     (let this1 = this\<lparr>successes := successes this + 1, lastSuccessTime := Some now\<rparr> in
      case state this1 of
        HALF_OPEN \<Rightarrow>
          (let this2 = this1\<lparr>halfOpenAttempts := halfOpenAttempts this1 + 1\<rparr> in
           if halfOpenAttempts this2 \<ge> halfOpenRetries (config this2)
           then this2\<lparr>state := CLOSED, failures := 0, halfOpenAttempts := 0\<rparr>
           else this2)
      | CLOSED \<Rightarrow> this1\<lparr>failures := 0\<rparr>
      | OPEN \<Rightarrow> this1)"

definition recordFailure :: "int \<Rightarrow> CircuitBreaker \<Rightarrow> CircuitBreaker" where
  "recordFailure now this =
     (let this1 = this\<lparr>failures := failures this + 1, lastFailureTime := Some now\<rparr> in
      case state this1 of
        CLOSED \<Rightarrow>
          (if failures this1 \<ge> failureThreshold (config this1)
           then this1\<lparr>state := OPEN,
                      nextRetryTime := Some (now + recoveryTimeout (config this1))\<rparr>
           else this1)
      | HALF_OPEN \<Rightarrow>
          this1\<lparr>state := OPEN,
                 nextRetryTime := Some (now + recoveryTimeout (config this1)),
                 halfOpenAttempts := 0\<rparr>
      | OPEN \<Rightarrow> this1)"

definition reset :: "CircuitBreaker \<Rightarrow> CircuitBreaker" where
  "reset this =
     this\<lparr>state := CLOSED, failures := 0, successes := 0, lastFailureTime := None,
          lastSuccessTime := None, nextRetryTime := None, halfOpenAttempts := 0\<rparr>"

definition CircuitBreaker_allowRequest :: "int \<Rightarrow> CircuitBreaker \<Rightarrow> bool \<times> CircuitBreaker" where
  "CircuitBreaker_allowRequest now this =
     (case getState now this of
        (CLOSED, this') \<Rightarrow> (True, this')
      | (HALF_OPEN, this') \<Rightarrow> (halfOpenAttempts this' < halfOpenRetries (config this'), this')
      | (OPEN, this') \<Rightarrow> (False, this'))"

definition CircuitState_name :: "CircuitState \<Rightarrow> string" where
  "CircuitState_name s = (case s of CLOSED \<Rightarrow> ''CLOSED'' | OPEN \<Rightarrow> ''OPEN'' | HALF_OPEN \<Rightarrow> ''HALF_OPEN'')"

text \<open>
  \<open>execute(fn)\<close>: \<open>outcome\<close> is what the awaited \<open>fn()\<close> produces, and \<open>settled\<close> the
  time at which it does.
\<close>

definition CircuitBreaker_execute ::
  "int \<Rightarrow> int \<Rightarrow> (error + 'a) \<Rightarrow> CircuitBreaker \<Rightarrow> (error + 'a) \<times> CircuitBreaker" where
  "CircuitBreaker_execute now settled outcome this =
     (case CircuitBreaker_allowRequest now this of
        (False, this') \<Rightarrow>
          (Inl (Error (''Circuit breaker is '' @ CircuitState_name (state this'))), this')
      | (True, this') \<Rightarrow>
          (case outcome of
             Inr result \<Rightarrow> (Inr result, recordSuccess settled this')
           | Inl err \<Rightarrow> (Inl err, recordFailure settled this')))"





section \<open>Rate limiters (infrastructure/patterns/RateLimiter)\<close>






















section \<open>PortfolioAggregationService (application/services/PortfolioAggregationService)\<close>

text \<open>
  The provider port.  \<open>connect\<close> is the outcome of awaiting \<open>connect()\<close> (\<open>None\<close> when it
  resolves) and \<open>fetchAssets\<close> the outcome of awaiting \<open>fetchAssets(addresses)\<close>.
\<close>

record IIntegrationRepository =
  isConnected :: bool
  connect :: "error option"
  fetchAssets :: "string list \<Rightarrow> error + AssetEntity list"

datatype invocation = Connect IntegrationSource | FetchAssets IntegrationSource "string list"

record AggregationOptions =
  options_sources :: "IntegrationSource list option"
  addresses :: "(string \<times> string list) list"
  options_userId :: "string option"
  forceRefresh :: "bool option"

text \<open>
  The persistence port \<open>IPortfolioRepository\<close>, over the state \<open>'r\<close> an implementation
  keeps.  \<open>save\<close> is the outcome of awaiting \<open>save(portfolio)\<close>, the new state or the
  rejection; \<open>findById\<close> the outcome of awaiting \<open>findById(id)\<close>.
\<close>

record 'r IPortfolioRepository =
  save :: "PortfolioAggregate \<Rightarrow> 'r \<Rightarrow> error + 'r"
  findById :: "string \<Rightarrow> 'r \<Rightarrow> error + PortfolioAggregate option"

text \<open>
  \<open>InMemoryPortfolioRepository\<close>: \<open>save\<close> is \<open>Map.set\<close> under the portfolio's id and
  \<open>findById\<close> is \<open>Map.get\<close>; neither rejects.
\<close>

definition InMemoryPortfolioRepository :: "(string \<times> PortfolioAggregate) list IPortfolioRepository" where
  "InMemoryPortfolioRepository =
     \<lparr>save = (\<lambda>portfolio portfolios. Inr (Map_set (portfolio_id portfolio) portfolio portfolios)),
      findById = (\<lambda>i portfolios. Inr (Map_get portfolios i))\<rparr>"

text \<open>
  The service with its collaborators: the registered providers, the portfolio
  repository and the state behind it, the valuator's \<open>getBatchPrices\<close>, and what an
  observer sees of a call: the provider methods invoked, the lines written by
  \<open>console.error\<close>, and the domain events published.  The service holds no event
  emitter and has no statement that publishes an event.
\<close>

record 'r PortfolioAggregationService =
  integrations :: "(IntegrationSource \<times> IIntegrationRepository) list"
  portfolioRepository :: "'r IPortfolioRepository"
  stored :: 'r
  assetValuator :: "string list \<Rightarrow> error + (string \<Rightarrow> Price option)"
  invoked :: "invocation list"
  console :: "string list"
  published :: "string list"

definition IntegrationSource_name :: "IntegrationSource \<Rightarrow> string" where
  "IntegrationSource_name s =
     (case s of EVM \<Rightarrow> ''evm'' | SOLANA \<Rightarrow> ''solana'' | ROBINHOOD \<Rightarrow> ''robinhood'')"

text \<open>\<open>[...new Set(result)]\<close>: the first occurrence of each element, in order.\<close>

definition Set_of :: "'a list \<Rightarrow> 'a list" where
  "Set_of xs = fold Set_add xs []"

definition getRelevantAddresses ::
  "IntegrationSource \<Rightarrow> (string \<times> string list) list \<Rightarrow> string list" where
  "getRelevantAddresses src addrs =
     Set_of
       (case src of
          EVM \<Rightarrow>
            concat (map snd
              (filter (\<lambda>(chain, _). chain \<in> set [''ethereum'', ''polygon'', ''arbitrum'',
                                                  ''optimism'', ''binance'']) addrs))
        | SOLANA \<Rightarrow> (case Map_get addrs ''solana'' of Some a \<Rightarrow> a | None \<Rightarrow> [])
        | ROBINHOOD \<Rightarrow> [''default''])"

text \<open>
  \<open>fetchFromSource\<close> returns its settled outcome and the provider methods it invoked, in
  the order in which it invokes them.
\<close>

definition fetchFromSource ::
  "IntegrationSource \<Rightarrow> (string \<times> string list) list \<Rightarrow> 'r PortfolioAggregationService \<Rightarrow>
     (error + AssetEntity list) \<times> invocation list" where
  "fetchFromSource src addrs this =
     (case Map_get (integrations this) src of
        None \<Rightarrow> (Inl (Error (''Integration not found: '' @ IntegrationSource_name src)), [])
      | Some integration \<Rightarrow>
          let connecting = (if \<not> isConnected integration then [Connect src] else []);
              failure = (if \<not> isConnected integration then connect integration else None)
          in case failure of
               Some e \<Rightarrow> (Inl e, connecting)
             | None \<Rightarrow>
                 let relevantAddresses = getRelevantAddresses src addrs in
                 if length relevantAddresses = 0 then (Inr [], connecting)
                 else (case fetchAssets integration relevantAddresses of
                         Inl e \<Rightarrow> (Inl e, connecting @ [FetchAssets src relevantAddresses])
                       | Inr found \<Rightarrow>
                           (Inr (map AssetEntity_new found),
                            connecting @ [FetchAssets src relevantAddresses])))"

fun addAssets :: "int \<Rightarrow> AssetEntity list \<Rightarrow> PortfolioAggregate \<Rightarrow> error + PortfolioAggregate" where
  "addAssets now [] portfolio = Inr portfolio"
| "addAssets now (asset # rest) portfolio =
     (case addAsset now asset portfolio of
        Inl e \<Rightarrow> Inl e
      | Inr portfolio' \<Rightarrow> addAssets now rest portfolio')"

text \<open>
  The loop over the settled results: a fulfilled result adds its source and its assets,
  a rejected one writes a line to the console.  An exception of \<open>addAsset\<close> leaves the
  loop.  The second component holds the console lines written.
\<close>

fun processResults ::
  "int \<Rightarrow> (IntegrationSource \<times> (error + AssetEntity list)) list \<Rightarrow> PortfolioAggregate \<Rightarrow>
     (error + PortfolioAggregate) \<times> string list" where
  "processResults now [] portfolio = (Inr portfolio, [])"
| "processResults now ((src, Inr found) # rest) portfolio =
     (case addAssets now found (addSource now src portfolio) of
        Inl e \<Rightarrow> (Inl e, [])
      | Inr portfolio' \<Rightarrow> processResults now rest portfolio')"
| "processResults now ((src, Inl reason) # rest) portfolio =
     (case processResults now rest portfolio of
        (outcome, out) \<Rightarrow> (outcome, (''Failed to fetch from '' @ IntegrationSource_name src) # out))"

definition enrichWithPrices ::
  "(string list \<Rightarrow> error + (string \<Rightarrow> Price option)) \<Rightarrow> PortfolioAggregate \<Rightarrow>
     PortfolioAggregate \<times> string list" where
  "enrichWithPrices valuator portfolio =
     (let symbols = Set_of (map symbol (Map_values (assets portfolio))) in
      if length symbols = 0 then (portfolio, [])
      else
        case valuator symbols of
          Inl e \<Rightarrow> (portfolio, [''Failed to enrich with prices''])
        | Inr prices \<Rightarrow>
            (portfolio\<lparr>assets :=
               map (\<lambda>(k, asset).
                      (k, case prices (symbol asset) of
                            Some p \<Rightarrow> updatePrice p asset
                          | None \<Rightarrow> asset))
                 (assets portfolio)\<rparr>, []))"

definition isCacheValid :: "int \<Rightarrow> PortfolioAggregate \<Rightarrow> bool" where
  "isCacheValid now portfolio =
     (let cacheTimeout = 5 * 60 * 1000; age = now - lastUpdated portfolio in age < cacheTimeout)"

definition String_of_int :: "int \<Rightarrow> string" where
  "String_of_int i = (if i < 0 then ''-'' @ digits (- i) else digits i)"

definition generatePortfolioId :: "int \<Rightarrow> string option \<Rightarrow> string" where
  "generatePortfolioId now uid =
     (if truthy uid then ''portfolio_'' @ or_default uid '''' else ''portfolio_'' @ String_of_int now)"

text \<open>
  \<open>aggregatePortfolio\<close>, entered at \<open>now\<close>; \<open>settled\<close> is the time at which all fetches
  have settled and the synchronous part that builds the portfolio runs.  A rejection of
  \<open>findById\<close> leaves the call before the \<open>try\<close> block; a rejection of \<open>save\<close> is caught,
  logged and thrown again like any other exception of the block.

  The fetches are started one after the other and run concurrently, so each sees the
  providers as they are at entry.  Each \<open>fetchFromSource\<close> runs up to its first \<open>await\<close>,
  which stands at its first provider call (\<open>connect\<close>, or \<open>fetchAssets\<close> when connected),
  before the next is started; what follows the \<open>await\<close> runs after all have been
  started, here in the order in which they were.
\<close>

definition interleaved :: "invocation list list \<Rightarrow> invocation list" where
  "interleaved calls = concat (map (take 1) calls) @ concat (map (drop 1) calls)"

definition aggregatePortfolio ::
  "int \<Rightarrow> int \<Rightarrow> AggregationOptions \<Rightarrow> 'r PortfolioAggregationService \<Rightarrow>
     (error + PortfolioAggregate) \<times> 'r PortfolioAggregationService" where
  "aggregatePortfolio now settled options this =
     (let portfolioId = generatePortfolioId now (options_userId options) in
      case (if forceRefresh options = Some True then Inr None
            else findById (portfolioRepository this) portfolioId (stored this)) of
        Inl e \<Rightarrow> (Inl e, this)
      | Inr cached \<Rightarrow>
          (case (case cached of
                   Some c \<Rightarrow> if isCacheValid now c then Some c else None
                 | None \<Rightarrow> None) of
             Some c \<Rightarrow> (Inr c, this)
           | None \<Rightarrow>
               let portfolio = PortfolioAggregate_new now portfolioId (options_userId options);
                   sourcesToFetch = (case options_sources options of
                                       Some s \<Rightarrow> s
                                     | None \<Rightarrow> Map_keys (integrations this));
                   fetched = map (\<lambda>src. fetchFromSource src (addresses options) this) sourcesToFetch;
                   this1 = this\<lparr>invoked := invoked this @ interleaved (map snd fetched)\<rparr>
               in case processResults settled (zip sourcesToFetch (map fst fetched)) portfolio of
                    (Inl e, out) \<Rightarrow>
                      (Inl e, this1\<lparr>console := console this1 @ out @
                                                  [''Portfolio aggregation failed'']\<rparr>)
                  | (Inr portfolio1, out) \<Rightarrow>
                      (case PortfolioAggregate_reconcile settled portfolio1 of
                         Inl e \<Rightarrow>
                           (Inl e, this1\<lparr>console := console this1 @ out @
                                                       [''Portfolio aggregation failed'']\<rparr>)
                       | Inr portfolio2 \<Rightarrow>
                           (case enrichWithPrices (assetValuator this1) portfolio2 of
                              (portfolio3, out') \<Rightarrow>
                                (case save (portfolioRepository this1) portfolio3 (stored this1) of
                                   Inl e \<Rightarrow>
                                     (Inl e, this1\<lparr>console := console this1 @ out @ out' @
                                                                 [''Portfolio aggregation failed'']\<rparr>)
                                 | Inr stored' \<Rightarrow>
                                     (Inr portfolio3,
                                      this1\<lparr>stored := stored',
                                             console := console this1 @ out @ out'\<rparr>))))))"

fun extractAddresses_loop ::
  "(string \<times> string list) list \<Rightarrow> AssetEntity list \<Rightarrow> (string \<times> string list) list" where
  "extractAddresses_loop addrs [] = addrs"
| "extractAddresses_loop addrs (asset # rest) =
     (if truthy (chain asset)
      then
        let c = or_default (chain asset) '''';
            chainAddresses = (case Map_get addrs c of Some a \<Rightarrow> a | None \<Rightarrow> [])
        in extractAddresses_loop (Map_set c chainAddresses addrs) rest
      else extractAddresses_loop addrs rest)"

definition extractAddresses :: "PortfolioAggregate \<Rightarrow> (string \<times> string list) list" where
  "extractAddresses portfolio = extractAddresses_loop [] (Map_values (assets portfolio))"

definition refreshPortfolio ::
  "int \<Rightarrow> int \<Rightarrow> string \<Rightarrow> 'r PortfolioAggregationService \<Rightarrow>
     (error + PortfolioAggregate) \<times> 'r PortfolioAggregationService" where
  "refreshPortfolio now settled portfolioId this =
     (case findById (portfolioRepository this) portfolioId (stored this) of
        Inl e \<Rightarrow> (Inl e, this)
      | Inr None \<Rightarrow> (Inl (Error (''Portfolio not found: '' @ portfolioId)), this)
      | Inr (Some existing) \<Rightarrow>
          aggregatePortfolio now settled
            \<lparr>options_sources = Some (sources existing),
             addresses = extractAddresses existing,
             options_userId = userId existing,
             forceRefresh = Some True\<rparr> this)"


text \<open>
  The partial-failure scenario: the EVM provider returns the on-chain ETH and the USDC
  holding for one address, the Solana provider throws on \<open>fetchAssets\<close>, and the
  valuator knows no price.
\<close>

definition evm_provider :: IIntegrationRepository where
  "evm_provider =
     \<lparr>isConnected = False, connect = None,
      fetchAssets = (\<lambda>_. Inr [eth_onchain, usdc_mixed])\<rparr>"

definition solana_provider :: IIntegrationRepository where
  "solana_provider =
     \<lparr>isConnected = True, connect = None,
      fetchAssets = (\<lambda>_. Inl (Error ''Solana RPC unavailable''))\<rparr>"

definition sample_service :: "(string \<times> PortfolioAggregate) list PortfolioAggregationService" where
  "sample_service =
     \<lparr>integrations = [(EVM, evm_provider), (SOLANA, solana_provider)],
      portfolioRepository = InMemoryPortfolioRepository,
      stored = [],
      assetValuator = (\<lambda>_. Inr (\<lambda>_. None)),
      invoked = [], console = [], published = []\<rparr>"

definition sample_options :: AggregationOptions where
  "sample_options =
     \<lparr>options_sources = Some [EVM, SOLANA],
      addresses = [(''ethereum'', [''0x1111111111111111111111111111111111111111'']),
                   (''solana'', [''7xKXtg2CW87d97TXJSDpbD5jBkheTqA83TZRuJosgAsU''])],
      options_userId = Some ''alice'',
      forceRefresh = Some False\<rparr>"

text \<open>A settled fetch that brings no asset: a rejection, or an empty list.\<close>

definition no_assets :: "error + AssetEntity list \<Rightarrow> bool" where
  "no_assets r = (case r of Inl e \<Rightarrow> True | Inr found \<Rightarrow> found = [])"

definition all_empty :: "(string \<times> string list) list \<Rightarrow> bool" where
  "all_empty addrs = list_all (\<lambda>entry. snd entry = []) addrs"

definition cached_service :: "(string \<times> PortfolioAggregate) list PortfolioAggregationService" where
  "cached_service = sample_service\<lparr>stored := [(''portfolio_alice'', sample_portfolio)]\<rparr>"


definition sourcesToFetch ::
  "AggregationOptions \<Rightarrow> 'r PortfolioAggregationService \<Rightarrow> IntegrationSource list" where
  "sourcesToFetch options this =
     (case options_sources options of Some s \<Rightarrow> s | None \<Rightarrow> Map_keys (integrations this))"



















section \<open>Properties of the same-asset predicates\<close>






section \<open>Properties of the merge operations\<close>

lemma toFixed_total:
  "valid_fractionDigits d \<Longrightarrow> \<exists>s. toFixed x d = Inr s"
  by (simp add: toFixed_def valid_fractionDigits_def Let_def)

lemma mergeAssets_defined:
  assumes same: "Reconciliation_isSameAsset a b"
    and valid: "valid_fractionDigits (decimals (balance (selectPreferredSource a b)))"
  shows "\<exists>m. mergeAssets a b = Inr m \<and>
           amount (balance m) = Number_add (amount (balance a)) (amount (balance b)) \<and>
           decimals (balance m) = decimals (balance (selectPreferredSource a b)) \<and>
           toFixed (Number_add (amount (balance a)) (amount (balance b))) (decimals (balance m)) =
             Inr (formatted (balance m))"
proof -
  obtain s where s: "toFixed (Number_add (amount (balance a)) (amount (balance b)))
      (decimals (balance (selectPreferredSource a b))) = Inr s"
    using toFixed_total [OF valid] by blast
  show ?thesis
    using same s by (simp add: mergeAssets_def formatBalance_def Let_def AssetEntity_new_def)
qed

lemma AssetEntity_merge_defined:
  assumes same: "AssetEntity_isSameAsset a b"
    and valid: "valid_fractionDigits (decimals (balance a))"
  shows "\<exists>m. AssetEntity_merge a b = Inr m \<and>
           amount (balance m) = Number_add (amount (balance a)) (amount (balance b)) \<and>
           decimals (balance m) = decimals (balance a) \<and>
           toFixed (Number_add (amount (balance a)) (amount (balance b))) (decimals (balance m)) =
             Inr (formatted (balance m))"
proof -
  obtain s where s: "toFixed (Number_add (amount (balance a)) (amount (balance b)))
      (decimals (balance a)) = Inr s"
    using toFixed_total [OF valid] by blast
  show ?thesis
    using same s by (simp add: AssetEntity_merge_def AssetEntity_new_def)
qed




lemma eth_facts:
  "Reconciliation_isSameAsset eth_onchain eth_cex"
  "Reconciliation_isSameAsset eth_cex eth_onchain"
  "Reconciliation_isSameAsset eth_tenth eth_fifth"
  "AssetEntity_isSameAsset eth_cex eth_onchain"
  "AssetEntity_isSameAsset eth_onchain eth_cex"
  "sourceType (metadata eth_onchain) = Some ''on-chain''"
  "sourceType (metadata eth_cex) = Some ''cex''"
  "sourceType (metadata eth_tenth) = None"
  "sourceType (metadata eth_fifth) = None"
  "decimals (balance eth_onchain) = Finite 18"
  "decimals (balance eth_cex) = Finite 8"
  "decimals (balance eth_tenth) = Finite 18"
  "valid_fractionDigits (Finite 18)"
  "valid_fractionDigits (Finite 8)"
  by code_simp+





text \<open>
  Claim C3, as the code has it.  Whenever a merge returns, the merged price is absent
  exactly when both prices are absent, and is the only price present when one is absent.
  When both are present, \<open>AssetReconciliationService.mergeAssets\<close> takes the first
  asset's price if its \<open>metadata.fetchedAt\<close> (0 when absent) is not smaller and the
  second's otherwise, while \<open>AssetEntity.merge\<close> compares the prices' own timestamps
  and takes the receiver's price only if its timestamp is strictly greater.
\<close>

theorem merge_price:
  "(mergeAssets a b = Inr m \<longrightarrow>
      (price m = None) = (price a = None \<and> price b = None) \<and>
      (price b = None \<longrightarrow> price m = price a) \<and>
      (price a = None \<longrightarrow> price m = price b) \<and>
      (price a \<noteq> None \<and> price b \<noteq> None \<longrightarrow>
         price m = (if fetchedTime a \<ge> fetchedTime b then price a else price b))) \<and>
   (AssetEntity_merge a b = Inr m' \<longrightarrow>
      (price m' = None) = (price a = None \<and> price b = None) \<and>
      (price b = None \<longrightarrow> price m' = price a) \<and>
      (price a = None \<longrightarrow> price m' = price b) \<and>
      (\<forall>p q. price a = Some p \<and> price b = Some q \<longrightarrow>
         price m' = Some (if timestamp p > timestamp q then p else q)))"
proof -
  have "price m = selectMostRecentPrice a b" if "mergeAssets a b = Inr m"
    using that
    by (auto simp: mergeAssets_def formatBalance_def Let_def AssetEntity_new_def
          split: if_splits sum.splits)
  moreover have "price m' = latestPrice a b" if "AssetEntity_merge a b = Inr m'"
    using that
    by (auto simp: AssetEntity_merge_def AssetEntity_new_def split: if_splits sum.splits)
  ultimately show ?thesis
    by (auto simp: selectMostRecentPrice_def latestPrice_def split: option.splits)
qed


theorem merge_price_witness:
  "(\<exists>m. mergeAssets eth_onchain eth_cex = Inr m \<and> price m = Some (usd (Finite 2100) 400)) \<and>
   (\<exists>m. AssetEntity_merge eth_onchain eth_cex = Inr m \<and> price m = Some (usd (Finite 2000) 500)) \<and>
   price eth_unpriced = None \<and>
   (\<exists>m. mergeAssets eth_unpriced eth_cex = Inr m \<and> price m = Some (usd (Finite 2100) 400)) \<and>
   (\<exists>m. AssetEntity_merge eth_onchain eth_unpriced = Inr m \<and> price m = Some (usd (Finite 2000) 500))"
proof -
  have pref: "valid_fractionDigits (decimals (balance (selectPreferredSource eth_onchain eth_cex)))"
    by code_simp
  obtain m where m: "mergeAssets eth_onchain eth_cex = Inr m"
    using mergeAssets_defined [OF eth_facts(1) pref] by blast
  have p: "price eth_onchain = Some (usd (Finite 2000) 500)" "price eth_cex = Some (usd (Finite 2100) 400)"
    "fetchedTime eth_onchain = 1000" "fetchedTime eth_cex = 2000"
    "timestamp (usd (Finite 2000) 500) = 500" "timestamp (usd (Finite 2100) 400) = 400"
    "price eth_unpriced = None"
    by code_simp+
  obtain m' where m': "AssetEntity_merge eth_onchain eth_cex = Inr m'"
    using AssetEntity_merge_defined [of eth_onchain eth_cex] by (auto simp: eth_facts)
  from merge_price [of eth_onchain eth_cex m m'] m m' p
  have both: "price m = Some (usd (Finite 2100) 400)" "price m' = Some (usd (Finite 2000) 500)"
    by auto
  have same: "Reconciliation_isSameAsset eth_unpriced eth_cex"
    "valid_fractionDigits (decimals (balance (selectPreferredSource eth_unpriced eth_cex)))"
    "AssetEntity_isSameAsset eth_onchain eth_unpriced"
    by code_simp+
  obtain n where n: "mergeAssets eth_unpriced eth_cex = Inr n"
    using mergeAssets_defined [of eth_unpriced eth_cex] same by auto
  obtain n' where n': "AssetEntity_merge eth_onchain eth_unpriced = Inr n'"
    using AssetEntity_merge_defined [of eth_onchain eth_unpriced] same by (auto simp: eth_facts)
  from merge_price [of eth_unpriced eth_cex n] n p
  have one: "price n = Some (usd (Finite 2100) 400)" by simp
  from merge_price [of eth_onchain eth_unpriced _ n'] n' p
  have other: "price n' = Some (usd (Finite 2000) 500)" by simp
  from m m' both n n' one other p(7) show ?thesis by blast
qed

text \<open>
  The claim as stated fails for \<open>AssetEntity.merge\<close>: the exchange holding was fetched
  later, yet the merged price is the on-chain holding's, whose price timestamp is later.
\<close>

theorem merge_price_counterexample:
  "fetchedAt (metadata eth_onchain) = Some 1000 \<and> fetchedAt (metadata eth_cex) = Some 2000 \<and>
   map_sum id price (AssetEntity_merge eth_onchain eth_cex) = Inr (price eth_onchain) \<and>
   price eth_onchain \<noteq> price eth_cex"
  by code_simp


section \<open>Reconciliation\<close>

lemma toUpperCase_char_idem: "toUpperCase_char (toUpperCase_char c) = toUpperCase_char c"
proof (cases "97 \<le> (of_char c :: nat) \<and> (of_char c :: nat) \<le> 122")
  case True
  have "(of_char c :: nat) - 32 < 256"
    using nat_of_char_less_256 [of c] by arith
  then have m: "((of_char c :: nat) - 32) mod 256 = of_char c - 32" by simp
  have "\<not> 97 \<le> (of_char c :: nat) - 32" using True by arith
  with m have "\<not> (97 \<le> (of_char (char_of ((of_char c :: nat) - 32)) :: nat))"
    by simp
  with True show ?thesis by (simp add: toUpperCase_char_def Let_def)
next
  case False
  then show ?thesis by (auto simp add: toUpperCase_char_def Let_def)
qed

lemma toUpperCase_idem: "toUpperCase (toUpperCase s) = toUpperCase s"
  by (simp add: toUpperCase_def toUpperCase_char_idem)

lemma constructed_new: "constructed (AssetEntity_new p)"
  by (simp add: constructed_def AssetEntity_new_def toUpperCase_idem)

subsection \<open>Map facts\<close>

lemma Map_set_keys:
  "map fst (Map_set k v m) = (if k \<in> fst ` set m then map fst m else map fst m @ [k])"
  by (induction m) auto

lemma Map_set_distinct: "distinct (map fst m) \<Longrightarrow> distinct (map fst (Map_set k v m))"
  by (simp add: Map_set_keys)

lemma Map_set_fresh: "k \<notin> fst ` set m \<Longrightarrow> Map_set k v m = m @ [(k, v)]"
  by (induction m) auto

lemma Map_set_entries: "set (Map_set k v m) \<subseteq> insert (k, v) (set m)"
  by (induction m) auto

lemma Map_get_None: "(Map_get m k = None) = (k \<notin> fst ` set m)"
  by (simp add: Map_get_def map_of_eq_None_iff)

lemma Map_get_Some: "Map_get m k = Some v \<Longrightarrow> (k, v) \<in> set m"
  by (simp add: Map_get_def map_of_SomeD)

subsection \<open>Keys are stable under merging\<close>

lemma mergeAssets_key:
  assumes "mergeAssets e a = Inr x" and "generateAssetKey e = generateAssetKey a"
  shows "generateAssetKey x = generateAssetKey a"
  using assms
  by (auto simp: mergeAssets_def Let_def formatBalance_def AssetEntity_new_def
        generateAssetKey_def selectPreferredSource_def toUpperCase_idem
        split: if_splits sum.splits)

lemma AssetEntity_merge_key:
  assumes "AssetEntity_merge e a = Inr x" and "getAssetKey e = getAssetKey a"
    and "constructed e"
  shows "getAssetKey x = getAssetKey a \<and> constructed x"
proof -
  from assms(1) have same: "AssetEntity_isSameAsset e a"
    by (auto simp: AssetEntity_merge_def split: if_splits)
  from assms(1) have x: "chain x = chain e" "symbol x = toUpperCase (symbol e)"
    "asset_type x = asset_type e"
    "contractAddress x = or_else (contractAddress e) (contractAddress a)"
    by (auto simp: AssetEntity_merge_def AssetEntity_new_def split: if_splits sum.splits)
  from x(2) assms(3) have sx: "symbol x = symbol e" by (simp add: constructed_def)
  have cx: "constructed x" using x(2) by (simp add: constructed_def toUpperCase_idem)
  show ?thesis
  proof (cases "truthy (contractAddress e)")
    case True
    then have "getAssetKey x = getAssetKey e"
      by (simp add: getAssetKey_def x(1,3,4) sx or_else_def)
    with assms(2) cx show ?thesis by simp
  next
    case False
    show ?thesis
    proof (cases "truthy (contractAddress a)")
      case True
      with False same have "symbol e = symbol a" "asset_type e = asset_type a" "chain e = chain a"
        by (auto simp: AssetEntity_isSameAsset_def)
      with False have "getAssetKey x = getAssetKey a"
        by (simp add: getAssetKey_def x(1,3,4) sx or_else_def)
      with cx show ?thesis by simp
    next
      case F2: False
      with False have "getAssetKey x = getAssetKey e"
        by (simp add: getAssetKey_def x(1,3,4) sx or_else_def)
      with assms(2) cx show ?thesis by simp
    qed
  qed
qed


subsection \<open>The reconciled map is indexed by the key of its values\<close>

lemma reconcile_loop_keyed:
  assumes "reconcile_loop m as = Inr m'"
    and "distinct (map fst m)"
    and "\<forall>(k, v) \<in> set m. generateAssetKey v = k"
  shows "distinct (map fst m') \<and> (\<forall>(k, v) \<in> set m'. generateAssetKey v = k)"
  using assms
proof (induction as arbitrary: m)
  case Nil
  then show ?case by simp
next
  case (Cons a as)
  let ?k = "generateAssetKey a"
  show ?case
  proof (cases "Map_get m ?k")
    case None
    with Cons.prems(1) have run: "reconcile_loop (Map_set ?k a m) as = Inr m'"
      by (simp add: Let_def)
    have "\<forall>(k, v) \<in> set (Map_set ?k a m). generateAssetKey v = k"
      using Cons.prems(3) Map_set_entries [of ?k a m] by auto
    with Cons.IH [OF run] Cons.prems(2) show ?thesis
      by (simp add: Map_set_distinct)
  next
    case (Some existing)
    with Cons.prems(1) obtain merged where merged: "mergeAssets existing a = Inr merged"
      and run: "reconcile_loop (Map_set ?k merged m) as = Inr m'"
      by (auto simp: Let_def split: sum.splits)
    from Some Cons.prems(3) have "generateAssetKey existing = ?k"
      using Map_get_Some by fastforce
    with merged have "generateAssetKey merged = ?k"
      by (rule mergeAssets_key)
    then have "\<forall>(k, v) \<in> set (Map_set ?k merged m). generateAssetKey v = k"
      using Cons.prems(3) Map_set_entries [of ?k merged m] by auto
    with Cons.IH [OF run] Cons.prems(2) show ?thesis
      by (simp add: Map_set_distinct)
  qed
qed

lemma reconcile_loop_fixed:
  assumes "distinct (map fst (m0 @ m))"
    and "\<forall>(k, v) \<in> set m. generateAssetKey v = k"
  shows "reconcile_loop m0 (map snd m) = Inr (m0 @ m)"
  using assms
proof (induction m arbitrary: m0)
  case Nil
  then show ?case by simp
next
  case (Cons e m)
  obtain k v where e: "e = (k, v)" by (cases e)
  from Cons.prems(2) e have key: "generateAssetKey v = k" by simp
  from Cons.prems(1) e have fresh: "k \<notin> fst ` set m0" by auto
  then have none: "Map_get m0 k = None" by (simp add: Map_get_None)
  have "distinct (map fst ((m0 @ [(k, v)]) @ m))" using Cons.prems(1) e by simp
  moreover have "\<forall>(k, v) \<in> set m. generateAssetKey v = k" using Cons.prems(2) by simp
  ultimately have "reconcile_loop (m0 @ [(k, v)]) (map snd m) = Inr ((m0 @ [(k, v)]) @ m)"
    by (rule Cons.IH)
  with none fresh key e show ?case
    by (simp add: Let_def Map_set_fresh)
qed

lemma reconcile_fixed:
  assumes "reconcile A = Inr B"
  shows "reconcile B = Inr B"
proof -
  from assms obtain m where m: "reconcile_loop [] A = Inr m" and B: "B = Map_values m"
    by (auto simp: reconcile_def split: sum.splits)
  from reconcile_loop_keyed [OF m] have "distinct (map fst m)"
    "\<forall>(k, v) \<in> set m. generateAssetKey v = k" by simp_all
  then have "reconcile_loop [] (map snd m) = Inr ([] @ m)"
    by (intro reconcile_loop_fixed) simp_all
  then show ?thesis by (simp add: reconcile_def B Map_values_def)
qed

lemma PortfolioAggregate_reconcile_loop_keyed:
  assumes "PortfolioAggregate_reconcile_loop m as = Inr m'"
    and "distinct (map fst m)"
    and "\<forall>(k, v) \<in> set m. getAssetKey v = k \<and> constructed v"
    and "\<forall>a \<in> set as. constructed a"
  shows "distinct (map fst m') \<and> (\<forall>(k, v) \<in> set m'. getAssetKey v = k \<and> constructed v)"
  using assms
proof (induction as arbitrary: m)
  case Nil
  then show ?case by simp
next
  case (Cons a as)
  let ?k = "getAssetKey a"
  from Cons.prems(4) have rest: "\<forall>a \<in> set as. constructed a" and ca: "constructed a"
    by simp_all
  show ?case
  proof (cases "Map_get m ?k")
    case None
    with Cons.prems(1) have run: "PortfolioAggregate_reconcile_loop (Map_set ?k a m) as = Inr m'"
      by (simp add: Let_def)
    have "\<forall>(k, v) \<in> set (Map_set ?k a m). getAssetKey v = k \<and> constructed v"
      using Cons.prems(3) ca Map_set_entries [of ?k a m] by auto
    with Cons.IH [OF run _ _ rest] Cons.prems(2) show ?thesis
      by (simp add: Map_set_distinct)
  next
    case (Some existing)
    with Cons.prems(1) obtain merged where merged: "AssetEntity_merge existing a = Inr merged"
      and run: "PortfolioAggregate_reconcile_loop (Map_set ?k merged m) as = Inr m'"
      by (auto simp: Let_def split: sum.splits)
    from Some Cons.prems(3) have "getAssetKey existing = ?k" "constructed existing"
      using Map_get_Some by fastforce+
    with merged have "getAssetKey merged = ?k \<and> constructed merged"
      by (intro AssetEntity_merge_key)
    then have "\<forall>(k, v) \<in> set (Map_set ?k merged m). getAssetKey v = k \<and> constructed v"
      using Cons.prems(3) Map_set_entries [of ?k merged m] by auto
    with Cons.IH [OF run _ _ rest] Cons.prems(2) show ?thesis
      by (simp add: Map_set_distinct)
  qed
qed

lemma PortfolioAggregate_reconcile_loop_fixed:
  assumes "distinct (map fst (m0 @ m))"
    and "\<forall>(k, v) \<in> set m. getAssetKey v = k"
  shows "PortfolioAggregate_reconcile_loop m0 (map snd m) = Inr (m0 @ m)"
  using assms
proof (induction m arbitrary: m0)
  case Nil
  then show ?case by simp
next
  case (Cons e m)
  obtain k v where e: "e = (k, v)" by (cases e)
  from Cons.prems(2) e have key: "getAssetKey v = k" by simp
  from Cons.prems(1) e have fresh: "k \<notin> fst ` set m0" by auto
  then have none: "Map_get m0 k = None" by (simp add: Map_get_None)
  have "distinct (map fst ((m0 @ [(k, v)]) @ m))" using Cons.prems(1) e by simp
  moreover have "\<forall>(k, v) \<in> set m. getAssetKey v = k" using Cons.prems(2) by simp
  ultimately have
    "PortfolioAggregate_reconcile_loop (m0 @ [(k, v)]) (map snd m) = Inr ((m0 @ [(k, v)]) @ m)"
    by (rule Cons.IH)
  with none fresh key e show ?case
    by (simp add: Let_def Map_set_fresh)
qed

lemma PortfolioAggregate_reconcile_fixed:
  assumes "PortfolioAggregate_reconcile t p = Inr p'"
    and "\<forall>a \<in> set (Map_values (assets p)). constructed a"
  shows "PortfolioAggregate_reconcile t' p' = Inr (p'\<lparr>lastUpdated := t'\<rparr>)"
proof -
  from assms(1) obtain m where m: "PortfolioAggregate_reconcile_loop [] (Map_values (assets p)) = Inr m"
    and p': "p' = p\<lparr>assets := m, lastUpdated := t\<rparr>"
    by (auto simp: PortfolioAggregate_reconcile_def split: sum.splits)
  from PortfolioAggregate_reconcile_loop_keyed [OF m _ _ assms(2)]
  have "distinct (map fst m)" "\<forall>(k, v) \<in> set m. getAssetKey v = k" by auto
  then have "PortfolioAggregate_reconcile_loop [] (map snd m) = Inr ([] @ m)"
    by (intro PortfolioAggregate_reconcile_loop_fixed) simp_all
  then show ?thesis by (simp add: PortfolioAggregate_reconcile_def p' Map_values_def)
qed

text \<open>
  Claim C4.  Reconciling a reconciled list returns it unchanged; where the first pass
  throws (two assets under one key that the same-asset predicate separates, or a
  formatting failure), the composition throws the same error, so
  \<open>reconcile(reconcile(A)) = reconcile(A)\<close> for every list.  For a portfolio of
  constructed entities, after one successful \<open>PortfolioAggregate.reconcile()\<close> a second
  call succeeds and leaves the asset map, hence its keys and balances, unchanged.
\<close>

theorem reconcile_idempotent:
  "(case reconcile A of Inl e \<Rightarrow> Inl e | Inr B \<Rightarrow> reconcile B) = reconcile A \<and>
   (list_all constructed (Map_values (assets p)) \<and>
    PortfolioAggregate_reconcile t p = Inr p' \<longrightarrow>
      (\<exists>p''. PortfolioAggregate_reconcile t' p' = Inr p'' \<and> assets p'' = assets p' \<and>
         Map_keys (assets p'') = Map_keys (assets p') \<and>
         map (amount \<circ> balance) (Map_values (assets p'')) =
           map (amount \<circ> balance) (Map_values (assets p'))))"
proof -
  have "(case reconcile A of Inl e \<Rightarrow> Inl e | Inr B \<Rightarrow> reconcile B) = reconcile A"
    using reconcile_fixed [of A] by (cases "reconcile A") simp_all
  moreover have "\<exists>p''. PortfolioAggregate_reconcile t' p' = Inr p'' \<and> assets p'' = assets p' \<and>
         Map_keys (assets p'') = Map_keys (assets p') \<and>
         map (amount \<circ> balance) (Map_values (assets p'')) =
           map (amount \<circ> balance) (Map_values (assets p'))"
    if "list_all constructed (Map_values (assets p))"
      and "PortfolioAggregate_reconcile t p = Inr p'"
    using PortfolioAggregate_reconcile_fixed [OF that(2), of t'] that(1)
    by (simp add: list_all_iff)
  ultimately show ?thesis by blast
qed


theorem reconcile_idempotent_witness:
  "list_all constructed (Map_values (assets sample_portfolio)) \<and>
   (\<exists>p'. PortfolioAggregate_reconcile 10 sample_portfolio = Inr p' \<and>
      holdings (assets p') =
        [(''ethereum:ETH:token'', Finite 4),
         (''ethereum:0xA0b86991c6218b36c1d19D4a2e9Eb0cE3606eB48'', Finite 10)] \<and>
      (\<exists>p''. PortfolioAggregate_reconcile 20 p' = Inr p'' \<and> assets p'' = assets p'))"
proof -
  have c: "list_all constructed (Map_values (assets sample_portfolio))"
    by code_simp
  have "case PortfolioAggregate_reconcile 10 sample_portfolio of
          Inl e \<Rightarrow> False
        | Inr p' \<Rightarrow> holdings (assets p') =
            [(''ethereum:ETH:token'', Finite 4),
             (''ethereum:0xA0b86991c6218b36c1d19D4a2e9Eb0cE3606eB48'', Finite 10)]"
    by code_simp
  then obtain p' where p': "PortfolioAggregate_reconcile 10 sample_portfolio = Inr p'"
    "holdings (assets p') =
        [(''ethereum:ETH:token'', Finite 4),
         (''ethereum:0xA0b86991c6218b36c1d19D4a2e9Eb0cE3606eB48'', Finite 10)]"
    by (auto split: sum.splits)
  from reconcile_idempotent [of _ sample_portfolio 10 p' 20] c p'(1)
  have "\<exists>p''. PortfolioAggregate_reconcile 20 p' = Inr p'' \<and> assets p'' = assets p'"
    by blast
  with c p' show ?thesis by blast
qed


section \<open>Total value of a portfolio\<close>

text \<open>
  Claim C9 at a concrete portfolio.  \<open>Money\<close> stores its currency in upper case, and
  \<open>getTotalValue\<close> compares the currency of each value with its argument as given.  A
  portfolio holds 1.5 ETH priced at 2000 in the currency \<open>usd\<close>; its value is 3000, yet
  the total asked in \<open>usd\<close>, the very currency of the price, is 0.  Likewise the
  portfolio priced in \<open>USD\<close>, worth 8250 when asked in \<open>USD\<close>, totals 0 when asked in
  \<open>usd\<close>.
\<close>

theorem getTotalValue_lowercase:
  "map (map_option currency \<circ> price) (Map_values (assets lowercase_portfolio)) = [Some ''usd''] \<and>
   getValue eth_lowercase_price =
     Inr (Some \<lparr>money_amount = Finite 3000, money_currency = ''USD''\<rparr>) \<and>
   getTotalValue ''usd'' lowercase_portfolio =
     Inr \<lparr>money_amount = Finite 0, money_currency = ''USD''\<rparr> \<and>
   getTotalValue ''USD'' sample_portfolio =
     Inr \<lparr>money_amount = Finite 8250, money_currency = ''USD''\<rparr> \<and>
   getTotalValue ''usd'' sample_portfolio =
     Inr \<lparr>money_amount = Finite 0, money_currency = ''USD''\<rparr>"
  by code_simp


section \<open>Circuit breaker transitions\<close>

lemma recordFailure_config [simp]: "config (recordFailure t cb) = config cb"
  by (simp add: recordFailure_def Let_def split: CircuitState.splits)

lemma recordSuccess_config [simp]: "config (recordSuccess t cb) = config cb"
  by (simp add: recordSuccess_def Let_def split: CircuitState.splits)











section \<open>Rounding to doubles\<close>














section \<open>Rate limiter admissions per window\<close>























section \<open>The aggregation service: refresh, cache and partial failure\<close>

lemma Map_set_all_empty: "all_empty addrs \<Longrightarrow> all_empty (Map_set c [] addrs)"
  by (induction addrs) (auto simp: all_empty_def)

lemma Map_get_all_empty: "all_empty addrs \<Longrightarrow> Map_get addrs c = Some a \<Longrightarrow> a = []"
  by (induction addrs) (auto simp: all_empty_def Map_get_def split: if_splits)

lemma extractAddresses_loop_all_empty:
  "all_empty addrs \<Longrightarrow> all_empty (extractAddresses_loop addrs as)"
proof (induction as arbitrary: addrs)
  case Nil
  then show ?case by simp
next
  case (Cons a as)
  show ?case
  proof (cases "truthy (chain a)")
    case True
    let ?c = "or_default (chain a) ''''"
    have "(case Map_get addrs ?c of Some x \<Rightarrow> x | None \<Rightarrow> []) = []"
      using Map_get_all_empty [OF Cons.prems] by (cases "Map_get addrs ?c") auto
    with True Cons.IH [OF Map_set_all_empty [OF Cons.prems, of ?c]] show ?thesis
      by (simp add: Let_def)
  next
    case False
    with Cons.IH [OF Cons.prems] show ?thesis by simp
  qed
qed

lemma extractAddresses_all_empty: "all_empty (extractAddresses p)"
  unfolding extractAddresses_def
  by (rule extractAddresses_loop_all_empty) (simp add: all_empty_def)

lemma Map_set_key_set: "fst ` set (Map_set k v m) = insert k (fst ` set m)"
  by (induction m) auto

lemma extractAddresses_loop_keys:
  "fst ` set (extractAddresses_loop addrs as) =
     fst ` set addrs \<union> {c. c \<noteq> [] \<and> Some c \<in> chain ` set as}"
proof (induction as arbitrary: addrs)
  case Nil
  then show ?case by simp
next
  case (Cons a as)
  show ?case
  proof (cases "truthy (chain a)")
    case False
    then have "{c. c \<noteq> [] \<and> Some c \<in> chain ` set (a # as)} =
        {c. c \<noteq> [] \<and> Some c \<in> chain ` set as}"
      by (cases "chain a") (auto simp: truthy_def)
    with False Cons.IH [of addrs] show ?thesis by simp
  next
    case True
    then obtain c where c: "chain a = Some c" "c \<noteq> []"
      by (auto simp: truthy_def split: option.splits)
    then have "{c. c \<noteq> [] \<and> Some c \<in> chain ` set (a # as)} =
        insert c {c. c \<noteq> [] \<and> Some c \<in> chain ` set as}"
      by auto
    moreover have "or_default (chain a) [] = c" using c by (simp add: or_default_def)
    ultimately show ?thesis
      using True Cons.IH [of "Map_set c (case Map_get addrs c of Some a \<Rightarrow> a | None \<Rightarrow> []) addrs"]
      by (simp add: Let_def Map_set_key_set)
  qed
qed

lemma extractAddresses_keys:
  "set (Map_keys (extractAddresses p)) =
     {c. c \<noteq> [] \<and> Some c \<in> chain ` set (Map_values (assets p))}"
  using extractAddresses_loop_keys [of "[]" "Map_values (assets p)"]
  by (simp add: extractAddresses_def Map_keys_def)

lemma concat_all_empty: "all_empty addrs \<Longrightarrow> concat (map snd (filter P addrs)) = []"
  by (induction addrs) (auto simp: all_empty_def)

lemma getRelevantAddresses_all_empty:
  assumes "all_empty addrs"
  shows "getRelevantAddresses EVM addrs = []" "getRelevantAddresses SOLANA addrs = []"
    "getRelevantAddresses ROBINHOOD addrs = [''default'']"
proof -
  show "getRelevantAddresses EVM addrs = []"
    by (simp add: getRelevantAddresses_def Set_of_def concat_all_empty [OF assms])
  show "getRelevantAddresses SOLANA addrs = []"
    using Map_get_all_empty [OF assms, of "''solana''"]
    by (cases "Map_get addrs ''solana''") (auto simp: getRelevantAddresses_def Set_of_def)
  show "getRelevantAddresses ROBINHOOD addrs = [''default'']"
    by (simp add: getRelevantAddresses_def Set_of_def Set_add_def)
qed

lemma fetchFromSource_all_empty:
  assumes "all_empty addrs" and "src \<noteq> ROBINHOOD"
  shows "no_assets (fst (fetchFromSource src addrs this)) \<and>
         set (snd (fetchFromSource src addrs this)) \<subseteq> {Connect src}"
proof -
  from assms have "getRelevantAddresses src addrs = []"
    using getRelevantAddresses_all_empty [OF assms(1)] by (cases src) auto
  then show ?thesis
    by (auto simp: fetchFromSource_def no_assets_def Let_def split: option.splits)
qed

lemma addSource_assets [simp]: "assets (addSource t src p) = assets p"
  by (simp add: addSource_def)

lemma processResults_no_assets:
  assumes "list_all (\<lambda>r. no_assets (snd r)) rs" and "assets p = []"
    and "processResults t rs p = (Inr p', out)"
  shows "assets p' = []"
  using assms
proof (induction t rs p arbitrary: out rule: processResults.induct)
  case (1 now portfolio)
  then show ?case by simp
next
  case (2 now src found rest portfolio)
  from "2.prems"(1) have found: "found = []" and rest: "list_all (\<lambda>r. no_assets (snd r)) rest"
    by (simp_all add: no_assets_def)
  from "2.prems"(3) found have run: "processResults now rest (addSource now src portfolio) = (Inr p', out)"
    by simp
  from "2.IH" [of "addSource now src portfolio" out] found rest "2.prems"(2) run
  show ?case by simp
next
  case (3 now src reason rest portfolio)
  from "3.prems"(1) have rest: "list_all (\<lambda>r. no_assets (snd r)) rest" by simp
  from "3.prems"(3) obtain out' where "processResults now rest portfolio = (Inr p', out')"
    by (auto split: prod.splits)
  with "3.IH" [OF rest "3.prems"(2)] show ?case by simp
qed

lemma enrichWithPrices_empty: "assets p = [] \<Longrightarrow> enrichWithPrices v p = (p, [])"
  by (simp add: enrichWithPrices_def Map_values_def Set_of_def)

lemma PortfolioAggregate_reconcile_empty:
  "assets p = [] \<Longrightarrow> PortfolioAggregate_reconcile t p = Inr (p\<lparr>lastUpdated := t\<rparr>)"
  by (simp add: PortfolioAggregate_reconcile_def Map_values_def)

lemma refresh_without_brokerage:
  assumes found: "findById (portfolioRepository this) pid (stored this) = Inr (Some existing)"
    and nobroker: "ROBINHOOD \<notin> set (sources existing)"
    and run: "refreshPortfolio now settled pid this = (Inr p', this')"
  shows "assets p' = []"
proof -
  let ?addrs = "extractAddresses existing"
  let ?srcs = "sources existing"
  let ?rs = "zip ?srcs (map fst (map (\<lambda>src. fetchFromSource src ?addrs this) ?srcs))"
  let ?p0 = "PortfolioAggregate_new now (generatePortfolioId now (userId existing)) (userId existing)"
  have "list_all (\<lambda>r. no_assets (snd r)) ?rs"
    unfolding list_all_iff
  proof
    fix r assume "r \<in> set ?rs"
    then obtain src where "src \<in> set ?srcs" and r: "r = (src, fst (fetchFromSource src ?addrs this))"
      by (auto simp: zip_map2 set_zip)
    with nobroker have "src \<noteq> ROBINHOOD" by auto
    then have "no_assets (fst (fetchFromSource src ?addrs this))"
      using fetchFromSource_all_empty [OF extractAddresses_all_empty, of src existing this] by blast
    with r show "no_assets (snd r)" by simp
  qed
  moreover have "assets ?p0 = []" by (simp add: PortfolioAggregate_new_def)
  ultimately have empty: "assets p1 = []" if "processResults settled ?rs ?p0 = (Inr p1, out)" for p1 out
    using that by (rule processResults_no_assets)
  obtain outcome out where pr: "processResults settled ?rs ?p0 = (outcome, out)"
    by (cases "processResults settled ?rs ?p0")
  show ?thesis
  proof (cases outcome)
    case (Inl e)
    with pr run found show ?thesis
      by (simp add: refreshPortfolio_def aggregatePortfolio_def Let_def)
  next
    case (Inr p1)
    with pr empty have e1: "assets p1 = []" by simp
    with pr Inr run found show ?thesis
      by (auto simp: refreshPortfolio_def aggregatePortfolio_def Let_def
            PortfolioAggregate_reconcile_empty enrichWithPrices_empty split: sum.splits)
  qed
qed


text \<open>
  Claim C10.  The address map that \<open>refreshPortfolio\<close> rebuilds from a persisted
  portfolio has exactly the non-empty chain tags of its assets as keys and maps every
  one of them to the empty list.  So the relevant addresses of the EVM and of the
  Solana provider are empty, their \<open>fetchFromSource\<close> brings no asset and calls at most
  \<open>connect\<close>, never \<open>fetchAssets\<close>, while the brokerage is asked with the sentinel
  \<open>default\<close>.  \<open>refreshPortfolio\<close> is \<open>aggregatePortfolio\<close> on that map with a forced
  refresh, and when the brokerage is not among the portfolio's sources the refreshed
  portfolio has no assets.
\<close>

theorem refresh_addresses_empty:
  "all_empty (extractAddresses existing) \<and>
   set (Map_keys (extractAddresses existing)) =
     {c. c \<noteq> [] \<and> Some c \<in> chain ` set (Map_values (assets existing))} \<and>
   getRelevantAddresses EVM (extractAddresses existing) = [] \<and>
   getRelevantAddresses SOLANA (extractAddresses existing) = [] \<and>
   getRelevantAddresses ROBINHOOD (extractAddresses existing) = [''default''] \<and>
   (src \<noteq> ROBINHOOD \<longrightarrow>
      no_assets (fst (fetchFromSource src (extractAddresses existing) this)) \<and>
      set (snd (fetchFromSource src (extractAddresses existing) this)) \<subseteq> {Connect src}) \<and>
   (findById (portfolioRepository this) pid (stored this) = Inr (Some existing) \<longrightarrow>
      refreshPortfolio now settled pid this =
        aggregatePortfolio now settled
          \<lparr>options_sources = Some (sources existing),
           addresses = extractAddresses existing,
           options_userId = userId existing,
           forceRefresh = Some True\<rparr> this) \<and>
   (findById (portfolioRepository this) pid (stored this) = Inr (Some existing) \<and>
    ROBINHOOD \<notin> set (sources existing) \<and>
    refreshPortfolio now settled pid this = (Inr p', this') \<longrightarrow> assets p' = [])"
proof -
  note e = extractAddresses_all_empty [of existing]
  have "assets p' = []"
    if "findById (portfolioRepository this) pid (stored this) = Inr (Some existing)"
      "ROBINHOOD \<notin> set (sources existing)"
      "refreshPortfolio now settled pid this = (Inr p', this')"
    using that by (rule refresh_without_brokerage)
  then have last: "findById (portfolioRepository this) pid (stored this) = Inr (Some existing) \<and>
      ROBINHOOD \<notin> set (sources existing) \<and>
      refreshPortfolio now settled pid this = (Inr p', this') \<longrightarrow> assets p' = []"
    by blast
  have unfold: "findById (portfolioRepository this) pid (stored this) = Inr (Some existing) \<longrightarrow>
      refreshPortfolio now settled pid this =
        aggregatePortfolio now settled
          \<lparr>options_sources = Some (sources existing),
           addresses = extractAddresses existing,
           options_userId = userId existing,
           forceRefresh = Some True\<rparr> this"
    by (simp add: refreshPortfolio_def)
  have fetch: "src \<noteq> ROBINHOOD \<longrightarrow>
      no_assets (fst (fetchFromSource src (extractAddresses existing) this)) \<and>
      set (snd (fetchFromSource src (extractAddresses existing) this)) \<subseteq> {Connect src}"
    using fetchFromSource_all_empty [OF e, of src this] by blast
  from e extractAddresses_keys [of existing] getRelevantAddresses_all_empty [OF e]
    fetch unfold last
  show ?thesis by blast
qed

lemma cached_service_facts:
  "findById (portfolioRepository cached_service) ''portfolio_alice'' (stored cached_service) =
     Inr (Some sample_portfolio)"
  "ROBINHOOD \<notin> set (sources sample_portfolio)"
  "forceRefresh sample_options \<noteq> Some True"
  "generatePortfolioId 60000 (options_userId sample_options) = ''portfolio_alice''"
  "lastUpdated sample_portfolio = 0"
  by code_simp+

theorem refresh_addresses_empty_witness:
  "findById (portfolioRepository cached_service) ''portfolio_alice'' (stored cached_service) =
     Inr (Some sample_portfolio) \<and>
   ROBINHOOD \<notin> set (sources sample_portfolio) \<and>
   extractAddresses sample_portfolio = [(''ethereum'', [])] \<and>
   fetchFromSource EVM (extractAddresses sample_portfolio) cached_service = (Inr [], [Connect EVM]) \<and>
   (\<exists>p' this'. refreshPortfolio 1000 1500 ''portfolio_alice'' cached_service = (Inr p', this') \<and>
      assets p' = [] \<and> sources p' = [EVM] \<and> invoked this' = [Connect EVM])"
proof -
  have x: "extractAddresses sample_portfolio = [(''ethereum'', [])]" by code_simp
  have f: "fetchFromSource EVM (extractAddresses sample_portfolio) cached_service =
      (Inr [], [Connect EVM])"
    by code_simp
  have "case refreshPortfolio 1000 1500 ''portfolio_alice'' cached_service of
          (Inr p', this') \<Rightarrow> sources p' = [EVM] \<and> invoked this' = [Connect EVM]
        | (Inl e, this') \<Rightarrow> False"
    by code_simp
  then obtain p' this' where run: "refreshPortfolio 1000 1500 ''portfolio_alice'' cached_service = (Inr p', this')"
    and rest: "sources p' = [EVM]" "invoked this' = [Connect EVM]"
    by (auto split: prod.splits sum.splits)
  from refresh_addresses_empty [of sample_portfolio _ cached_service "''portfolio_alice''" 1000 1500 p' this']
    cached_service_facts(1,2) run
  have "assets p' = []" by blast
  with run rest x f cached_service_facts(1,2) show ?thesis by blast
qed

text \<open>
  Claim C8.  When a refresh is not forced and the repository holds, under the derived
  id, a portfolio younger than five minutes (300 000 ms), \<open>aggregatePortfolio\<close> returns
  that portfolio and leaves the service as it was: nothing is saved and no provider
  method is invoked.
\<close>

theorem cache_hit:
  "forceRefresh options \<noteq> Some True \<and>
   findById (portfolioRepository this) (generatePortfolioId now (options_userId options))
     (stored this) = Inr (Some cached) \<and>
   now - lastUpdated cached < 300000 \<longrightarrow>
     aggregatePortfolio now settled options this = (Inr cached, this) \<and>
     invoked (snd (aggregatePortfolio now settled options this)) = invoked this"
  by (simp add: aggregatePortfolio_def isCacheValid_def Let_def)

theorem cache_hit_witness:
  "forceRefresh sample_options \<noteq> Some True \<and>
   findById (portfolioRepository cached_service)
     (generatePortfolioId 60000 (options_userId sample_options)) (stored cached_service) =
     Inr (Some sample_portfolio) \<and>
   60000 - lastUpdated sample_portfolio < 300000 \<and>
   aggregatePortfolio 60000 60500 sample_options cached_service = (Inr sample_portfolio, cached_service)"
proof -
  have h: "forceRefresh sample_options \<noteq> Some True \<and>
     findById (portfolioRepository cached_service)
       (generatePortfolioId 60000 (options_userId sample_options)) (stored cached_service) =
       Inr (Some sample_portfolio) \<and>
     60000 - lastUpdated sample_portfolio < 300000"
    by (simp add: cached_service_facts)
  with cache_hit [of sample_options cached_service 60000 sample_portfolio 60500]
  show ?thesis by blast
qed



section \<open>The aggregation service: partial failure\<close>






subsection \<open>The call in terms of the assembled portfolio\<close>




subsection \<open>Only the survivors count\<close>









subsection \<open>Every asset of the portfolio stems from a survivor\<close>











subsection \<open>Unrelated holdings are kept as they are\<close>

















end
